theory Spec2Isabelle
  imports Complex_Main "HOL-Library.Product_Lexorder"
begin

section \<open>The vector database of Chapter 5, Lecture 5\<close>

text \<open>
  The class \<open>VectorDatabase\<close> keeps a FAISS index of embeddings next to a list of
  document texts and a list of metadata dictionaries. This theory embeds its methods
  \<open>__init__\<close>, \<open>generate_embeddings\<close>, \<open>add_documents\<close>, \<open>search\<close>, \<open>save\<close> and
  \<open>load\<close>. A 32-bit float that is a number is a \<open>real\<close>; NaN and the infinities
  are outside the model. What the index computes from such numbers is not fixed by the
  model: the distance function is a parameter of \<open>search\<close>.
\<close>

subsection \<open>Errors\<close>

text \<open>
  The Python raises exceptions; each raise is a value of \<open>error\<close>, named after the
  error kind of the specification:
  \<^item> \<open>LengthMismatch\<close>: the \<open>assert len(metadata) == len(documents)\<close> of
    \<open>add_documents\<close>, and nothing else;
  \<^item> \<open>DimensionMismatch\<close>: the index refuses vectors of another width;
  \<^item> \<open>EmbeddingError\<close>: tokenizer or model fail, or return no row for the query;
  \<^item> \<open>EmptyIndex\<close>: a search in an index without vectors;
  \<^item> \<open>NotFound\<close>: the \<open>IndexError\<close> of \<open>self.documents[idx]\<close> or
    \<open>self.metadata[idx]\<close>;
  \<^item> \<open>CorruptState\<close>: every failure of \<open>load\<close> (a file that cannot be opened,
    unpickled or read, a model name for which no model can be loaded).
\<close>

datatype error =
  LengthMismatch | DimensionMismatch | EmbeddingError | EmptyIndex | NotFound | CorruptState

subsection \<open>Metadata dictionaries and the object store\<close>

text \<open>
  A metadata dictionary is a mutable Python object: \<open>add_documents\<close> writes
  \<open>meta['document_idx']\<close> into the dictionaries the caller passed, and
  \<open>self.metadata\<close> holds references to them. The dictionaries therefore live in a
  store, a list of dictionaries addressed by position; a new dictionary is allocated at
  the end of the store.
\<close>

datatype pyval = PStr string | PInt int | PBool bool

type_synonym pydict = "string \<rightharpoonup> pyval"

type_synonym addr = nat

type_synonym store = "pydict list"

subsection \<open>The vector index\<close>

type_synonym vector = "real list"

type_synonym matrix = "vector list"

record index_flat_l2 =
  dimension :: nat
  vectors :: "vector list"

text \<open>\<open>embeddings.shape[1]\<close> of a two-dimensional array with at least one row.\<close>

definition shape1 :: "matrix \<Rightarrow> nat" where
  "shape1 m = (case m of [] \<Rightarrow> 0 | r # _ \<Rightarrow> length r)"

text \<open>
  Modelled from the spec: \<open>faiss.IndexFlatL2(dimension)\<close> is code of the FAISS
  library, which is not among the sources. Section 4.1: \<open>create(dimension)\<close> is the
  empty index fixed to \<open>dimension\<close>.
\<close>

definition index_create :: "nat \<Rightarrow> index_flat_l2" where
  "index_create n = \<lparr>dimension = n, vectors = []\<rparr>"

text \<open>
  Modelled from the spec: \<open>index.add(embeddings)\<close> of FAISS is missing. Section
  4.1: \<open>add\<close> appends in order; it fails with \<open>DimensionMismatch\<close> if any vector's
  length differs from \<open>dimension\<close>; on failure no vector is added.
\<close>

definition index_add :: "index_flat_l2 \<Rightarrow> matrix \<Rightarrow> error + index_flat_l2" where
  "index_add ix xs =
     (if list_all (\<lambda>v. length v = dimension ix) xs
      then Inr (ix\<lparr>vectors := vectors ix @ xs\<rparr>)
      else Inl DimensionMismatch)"

text \<open>
  The index computes squared Euclidean distances in 32-bit floating point. The model
  does not fix that arithmetic: a \<open>metric\<close> gives, for a query and a stored vector, the
  number the index computes for them.
\<close>

type_synonym metric = "vector \<Rightarrow> vector \<Rightarrow> real"

text \<open>
  The squared Euclidean distance in exact arithmetic, a metric for worked examples on
  small whole numbers, where 32-bit floating point is exact.
\<close>

definition l2sqr :: metric where
  "l2sqr x y = sum_list (map (\<lambda>(a, b). (a - b) * (a - b)) (zip x y))"

text \<open>The key by which hits are ranked: the distance first, then the position.\<close>

definition hit_key :: "nat \<times> real \<Rightarrow> real \<times> nat" where
  "hit_key p = (snd p, fst p)"

text \<open>
  Modelled from the spec: \<open>index.search(query, k)\<close> of FAISS is missing. Section
  4.1: it computes the squared Euclidean distance from \<open>query\<close> to every stored vector
  (\<open>fdist\<close>, as the index computes it) and returns the \<open>k\<close> smallest distances
  ascending, ties broken by lower position first; it fails with \<open>EmptyIndex\<close> if no
  vectors are stored; a \<open>k\<close> above the stored count is clamped (\<open>take\<close>). A query is
  a vector of the index, of its dimension (Section 3); a query of another width is a
  vector width disagreement, \<open>DimensionMismatch\<close> (Section 7). The result pairs each
  position with its distance.
\<close>

definition index_search ::
  "metric \<Rightarrow> index_flat_l2 \<Rightarrow> vector \<Rightarrow> nat \<Rightarrow> error + (nat \<times> real) list" where
  "index_search fdist ix q k =
     (if length q \<noteq> dimension ix then Inl DimensionMismatch
      else if vectors ix = [] then Inl EmptyIndex
      else Inr (take k (sort_key hit_key (enumerate 0 (map (fdist q) (vectors ix))))))"

subsection \<open>The database\<close>

text \<open>
  \<open>model\<close> stands for \<open>self.tokenizer\<close> and \<open>self.model\<close> together: the capability
  that turns a batch of texts into an array of embeddings, or fails (\<open>None\<close>).
\<close>

type_synonym embedder = "string list \<Rightarrow> matrix option"

record vector_database =
  model_name :: string
  model :: embedder
  index :: "index_flat_l2 option"
  documents :: "string list"
  metadata :: "addr list"

text \<open>
  \<open>__init__\<close>: \<open>from_pretrained\<close> is the model hub, a parameter; it has no model for
  some names.
\<close>

definition init :: "(string \<Rightarrow> embedder option) \<Rightarrow> string \<Rightarrow> error + vector_database" where
  "init from_pretrained name =
     (case from_pretrained name of
        None \<Rightarrow> Inl CorruptState
      | Some m \<Rightarrow>
          Inr \<lparr>model_name = name, model = m, index = None, documents = [], metadata = []\<rparr>)"

text \<open>\<open>generate_embeddings\<close>: an exception of tokenizer or model is \<open>EmbeddingError\<close>.\<close>

definition generate_embeddings :: "vector_database \<Rightarrow> string list \<Rightarrow> error + matrix" where
  "generate_embeddings db texts =
     (case model db texts of None \<Rightarrow> Inl EmbeddingError | Some embeddings \<Rightarrow> Inr embeddings)"

text \<open>
  Modelled from the spec: the class has no method \<open>total_count\<close>; the count it
  reports (\<open>Total documents: {len(self.documents)}\<close>) is the length of the document
  list.
\<close>

definition total_count :: "vector_database \<Rightarrow> nat" where
  "total_count db = length (documents db)"

text \<open>
  The loop \<open>for i, meta in enumerate(metadata): meta['document_idx'] = start_idx + i\<close>,
  with \<open>n\<close> the value of \<open>start_idx + i\<close>.
\<close>

fun stamp :: "nat \<Rightarrow> addr list \<Rightarrow> store \<Rightarrow> store" where
  "stamp n [] h = h"
| "stamp n (a # as) h =
     stamp (Suc n) as (h[a := (h ! a)(''document_idx'' \<mapsto> PInt (int n))])"

text \<open>
  The argument \<open>documents\<close> of \<open>add_documents\<close> is a list object: a list of the
  caller's (\<open>Separate\<close>, with its elements), or the list \<open>self.documents\<close> of the
  database itself (\<open>Own\<close>). \<open>contents db d\<close> is what the argument holds while the
  database is \<open>db\<close>; for \<open>Own\<close> it grows when \<open>self.documents\<close> is extended.
\<close>

datatype doc_list = Separate "string list" | Own

definition contents :: "vector_database \<Rightarrow> doc_list \<Rightarrow> string list" where
  "contents db d = (case d of Separate docs \<Rightarrow> docs | Own \<Rightarrow> documents db)"

text \<open>
  \<open>add_documents\<close>. The result is the exception raised, if any, with the store and
  the database as the call leaves them: an exception does not undo the assignments made
  before it. The embeddings are those of the argument as it is on entry (\<open>docs\<close>);
  after \<open>self.documents.extend(documents)\<close> the argument is \<open>contents db3 d\<close>, and it
  is this list that \<open>metadata = None\<close> allocates one empty dictionary per element of,
  and that the assertion compares with. The argument \<open>metadata\<close> is a list of
  references; \<open>self.metadata\<close> is assigned to only in the last statement, so that a
  call with the list \<open>self.metadata\<close> itself does what a call with a list of the same
  references does.
\<close>

definition add_documents ::
  "store \<Rightarrow> vector_database \<Rightarrow> doc_list \<Rightarrow> addr list option
     \<Rightarrow> error option \<times> store \<times> vector_database" where
  "add_documents h db d md =
     (let docs = contents db d
      in if docs = [] then (None, h, db)
         else
           (case generate_embeddings db docs of
              Inl e \<Rightarrow> (Some e, h, db)
            | Inr embeddings \<Rightarrow>
                (let ix0 = (case index db of
                              None \<Rightarrow> index_create (shape1 embeddings)
                            | Some ix \<Rightarrow> ix);
                     db1 = db\<lparr>index := Some ix0\<rparr>
                 in (case index_add ix0 embeddings of
                       Inl e \<Rightarrow> (Some e, h, db1)
                     | Inr ix1 \<Rightarrow>
                         (let db2 = db1\<lparr>index := Some ix1\<rparr>;
                              start_idx = length (documents db2);
                              db3 = db2\<lparr>documents := documents db2 @ docs\<rparr>;
                              docs3 = contents db3 d;
                              h1 = (case md of
                                      None \<Rightarrow> h @ replicate (length docs3) Map.empty
                                    | Some _ \<Rightarrow> h);
                              metas = (case md of
                                         None \<Rightarrow> [length h ..< length h + length docs3]
                                       | Some ms \<Rightarrow> ms)
                          in if length metas \<noteq> length docs3
                             then (Some LengthMismatch, h1, db3)
                             else (None, stamp start_idx metas h1,
                                   db3\<lparr>metadata := metadata db3 @ metas\<rparr>))))))"

subsection \<open>Search\<close>

record search_result =
  rank :: nat
  document_idx :: nat
  distance :: real
  text_of :: string
  metadata_of :: pydict

text \<open>
  The loop that formats the hits; \<open>i\<close> is the loop counter of \<open>enumerate\<close>. An index
  outside \<open>self.documents\<close> or \<open>self.metadata\<close> raises. The field \<open>metadata\<close> of a
  result is the dictionary object itself; \<open>metadata_of\<close> is its content when \<open>search\<close>
  returns.
\<close>

fun format_results ::
  "store \<Rightarrow> vector_database \<Rightarrow> nat \<Rightarrow> (nat \<times> real) list \<Rightarrow> error + search_result list" where
  "format_results h db i [] = Inr []"
| "format_results h db i ((idx, dis) # rest) =
     (if idx < length (documents db) \<and> idx < length (metadata db)
      then (case format_results h db (Suc i) rest of
              Inl e \<Rightarrow> Inl e
            | Inr rs \<Rightarrow>
                Inr (\<lparr>rank = i + 1, document_idx = idx, distance = dis,
                      text_of = documents db ! idx,
                      metadata_of = h ! (metadata db ! idx)\<rparr> # rs))
      else Inl NotFound)"

text \<open>
  \<open>search\<close>: the query is embedded as a batch of one text, and row 0 of the answer of
  the index is formatted. \<open>k\<close> is a count, a natural number; \<open>fdist\<close> is the metric
  of the index.
\<close>

definition search ::
  "metric \<Rightarrow> store \<Rightarrow> vector_database \<Rightarrow> string \<Rightarrow> nat \<Rightarrow> error + search_result list" where
  "search fdist h db query k =
     (case index db of
        None \<Rightarrow> Inr []
      | Some ix \<Rightarrow>
          (if length (documents db) = 0 then Inr []
           else
             (case generate_embeddings db [query] of
                Inl e \<Rightarrow> Inl e
              | Inr [] \<Rightarrow> Inl EmbeddingError
              | Inr (q # _) \<Rightarrow>
                  (case index_search fdist ix q (min k (length (documents db))) of
                     Inl e \<Rightarrow> Inl e
                   | Inr hits \<Rightarrow> format_results h db 0 hits))))"

subsection \<open>Persistence\<close>

text \<open>
  A directory holds up to four files. A file is missing, or unreadable for the reader
  that \<open>load\<close> applies to it, or holds a value. \<open>metadata.pkl\<close> holds the contents of
  the dictionaries.
\<close>

datatype 'a artifact = Missing | Unreadable | Holds 'a

record directory =
  index_faiss :: "index_flat_l2 artifact"
  documents_pkl :: "string list artifact"
  metadata_pkl :: "pydict list artifact"
  model_name_txt :: "string artifact"

text \<open>
  \<open>save\<close> writes the index only \<open>if self.index is not None\<close>; an older
  \<open>index.faiss\<close> stays in place otherwise.
\<close>

definition save :: "store \<Rightarrow> vector_database \<Rightarrow> directory \<Rightarrow> directory" where
  "save h db dir =
     dir\<lparr>index_faiss := (case index db of None \<Rightarrow> index_faiss dir | Some ix \<Rightarrow> Holds ix),
         documents_pkl := Holds (documents db),
         metadata_pkl := Holds (map (\<lambda>a. h ! a) (metadata db)),
         model_name_txt := Holds (model_name db)\<rparr>"

text \<open>
  \<open>str.strip()\<close>: leading and trailing whitespace is removed; \<open>is_space\<close> holds of
  the ASCII characters that Python counts as whitespace. Python strips other Unicode
  whitespace too (U+0085, U+00A0 and more), which the model does not: a string is a
  list of bytes here.
\<close>

definition is_space :: "char \<Rightarrow> bool" where
  "is_space c = (c \<in> set [CHR '' '', CHR 0x09, CHR 0x0A, CHR 0x0B, CHR 0x0C, CHR 0x0D,
                           CHR 0x1C, CHR 0x1D, CHR 0x1E, CHR 0x1F])"

definition strip :: "string \<Rightarrow> string" where
  "strip s = rev (dropWhile is_space (rev (dropWhile is_space s)))"

text \<open>
  \<open>load\<close> reads the model name, builds the instance, reads documents and metadata, and
  reads the index only \<open>if os.path.exists(index_path)\<close>. Unpickling allocates the
  dictionaries anew, at the end of the store, one per entry of the list: the contents
  are those that were saved, but two entries that were one object when saved are two
  objects of equal contents here, where pickle would restore one.
\<close>

definition load ::
  "(string \<Rightarrow> embedder option) \<Rightarrow> store \<Rightarrow> directory \<Rightarrow> error + store \<times> vector_database" where
  "load from_pretrained h dir =
     (case model_name_txt dir of
        Holds s \<Rightarrow>
          (case init from_pretrained (strip s) of
             Inl e \<Rightarrow> Inl e
           | Inr db \<Rightarrow>
               (case documents_pkl dir of
                  Holds docs \<Rightarrow>
                    (case metadata_pkl dir of
                       Holds metas \<Rightarrow>
                         (let db1 = db\<lparr>documents := docs,
                                        metadata := [length h ..< length h + length metas]\<rparr>;
                              h1 = h @ metas
                          in case index_faiss dir of
                               Missing \<Rightarrow> Inr (h1, db1)
                             | Unreadable \<Rightarrow> Inl CorruptState
                             | Holds ix \<Rightarrow> Inr (h1, db1\<lparr>index := Some ix\<rparr>))
                     | _ \<Rightarrow> Inl CorruptState)
                | _ \<Rightarrow> Inl CorruptState))
      | _ \<Rightarrow> Inl CorruptState)"

subsection \<open>The length invariant\<close>

text \<open>The vectors of the index, and their number; no index holds no vector.\<close>

definition stored_vectors :: "vector_database \<Rightarrow> vector list" where
  "stored_vectors db = (case index db of None \<Rightarrow> [] | Some ix \<Rightarrow> vectors ix)"

definition index_len :: "vector_database \<Rightarrow> nat" where
  "index_len db = (case index db of None \<Rightarrow> 0 | Some ix \<Rightarrow> length (vectors ix))"

definition store_inv :: "vector_database \<Rightarrow> bool" where
  "store_inv db \<longleftrightarrow>
     index_len db = length (documents db) \<and> length (metadata db) = length (documents db)"

subsection \<open>Example values\<close>

text \<open>
  Small values for worked examples. \<open>length_model\<close> embeds a text as the
  one-dimensional vector of its length, \<open>pair_model\<close> as a two-dimensional one;
  \<open>failing_model\<close> fails on every batch, and \<open>short_model\<close> returns one row whatever
  the batch. \<open>hub\<close> knows the model name \<open>m\<close> only. \<open>empty_db\<close> is a database as
  \<open>__init__\<close> leaves it; \<open>two_db\<close> with \<open>two_store\<close> is what adding
  \<open>['a', 'bcd']\<close> without metadata makes of it.
\<close>

definition length_model :: embedder where
  "length_model texts = Some (map (\<lambda>t. [real (length t)]) texts)"

definition pair_model :: embedder where
  "pair_model texts = Some (map (\<lambda>t. [real (length t), 0]) texts)"

definition failing_model :: embedder where
  "failing_model texts = None"

definition short_model :: embedder where
  "short_model texts = Some [[0]]"

definition hub :: "string \<Rightarrow> embedder option" where
  "hub name = (if name = ''m'' then Some length_model else None)"

definition empty_db :: vector_database where
  "empty_db =
     \<lparr>model_name = ''m'', model = length_model, index = None, documents = [], metadata = []\<rparr>"

definition two_store :: store where
  "two_store = [[''document_idx'' \<mapsto> PInt 0], [''document_idx'' \<mapsto> PInt 1]]"

definition two_db :: vector_database where
  "two_db =
     \<lparr>model_name = ''m'', model = length_model,
      index = Some \<lparr>dimension = 1, vectors = [[1], [3]]\<rparr>,
      documents = [''a'', ''bcd''], metadata = [0, 1]\<rparr>"

text \<open>\<open>two_db\<close> with an embedder of another width, and with one that fails.\<close>

definition wide_db :: vector_database where
  "wide_db = two_db\<lparr>model := pair_model\<rparr>"

definition mute_db :: vector_database where
  "mute_db = two_db\<lparr>model := failing_model\<rparr>"

text \<open>
  A new database whose embedder returns one row per batch, and what adding
  \<open>['a', 'bcd']\<close> makes of it.
\<close>

definition short_db :: vector_database where
  "short_db = empty_db\<lparr>model := short_model\<rparr>"

definition lean_db :: vector_database where
  "lean_db =
     \<lparr>model_name = ''m'', model = short_model,
      index = Some \<lparr>dimension = 1, vectors = [[0]]\<rparr>,
      documents = [''a'', ''bcd''], metadata = [0, 1]\<rparr>"

text \<open>What a call with two documents and an empty metadata list leaves behind.\<close>

definition orphan_db :: vector_database where
  "orphan_db = two_db\<lparr>metadata := []\<rparr>"

text \<open>What a call with two documents and the same dictionary twice leaves behind.\<close>

definition shared_store :: store where
  "shared_store = [[''document_idx'' \<mapsto> PInt 1]]"

definition shared_db :: vector_database where
  "shared_db = two_db\<lparr>metadata := [0, 0]\<rparr>"

text \<open>
  What \<open>db.add_documents(db.documents)\<close> makes of \<open>two_db\<close>: \<open>doubled_db\<close> with
  \<open>doubled_store\<close>. \<open>six_store\<close> is \<open>two_store\<close> with four more, empty dictionaries;
  \<open>grown_db\<close> is \<open>doubled_db\<close> with the metadata list of \<open>two_db\<close>.
\<close>

definition six_store :: store where
  "six_store = two_store @ [Map.empty, Map.empty, Map.empty, Map.empty]"

definition doubled_store :: store where
  "doubled_store =
     two_store @ [[''document_idx'' \<mapsto> PInt 2], [''document_idx'' \<mapsto> PInt 3],
                  [''document_idx'' \<mapsto> PInt 4], [''document_idx'' \<mapsto> PInt 5]]"

definition doubled_db :: vector_database where
  "doubled_db =
     \<lparr>model_name = ''m'', model = length_model,
      index = Some \<lparr>dimension = 1, vectors = [[1], [3], [1], [3]]\<rparr>,
      documents = [''a'', ''bcd'', ''a'', ''bcd''], metadata = [0, 1, 2, 3, 4, 5]\<rparr>"

definition grown_db :: vector_database where
  "grown_db = doubled_db\<lparr>metadata := [0, 1]\<rparr>"

text \<open>
  Databases whose lengths disagree: \<open>two_db\<close> without its second document and
  metadata record, without its index, and with an index that holds no vector.
\<close>

definition surplus_db :: vector_database where
  "surplus_db = two_db\<lparr>documents := [''a''], metadata := [0]\<rparr>"

definition headless_db :: vector_database where
  "headless_db = two_db\<lparr>index := None\<rparr>"

definition hollow_db :: vector_database where
  "hollow_db = two_db\<lparr>index := Some \<lparr>dimension = 1, vectors = []\<rparr>\<rparr>"

text \<open>
  Directories: an empty one; one with a document but neither index nor metadata entry;
  one whose only file is an \<open>index.faiss\<close> that FAISS cannot read; one whose only file
  is the \<open>index.faiss\<close> of \<open>two_db\<close>; and one with all files of \<open>two_db\<close> but the
  index. \<open>stale_db\<close> is what \<open>load\<close> returns after \<open>empty_db\<close> was saved to the
  fourth.
\<close>

definition no_dir :: directory where
  "no_dir =
     \<lparr>index_faiss = Missing, documents_pkl = Missing, metadata_pkl = Missing,
      model_name_txt = Missing\<rparr>"

definition loose_dir :: directory where
  "loose_dir =
     \<lparr>index_faiss = Missing, documents_pkl = Holds [''a''], metadata_pkl = Holds [],
      model_name_txt = Holds ''m''\<rparr>"

definition loose_db :: vector_database where
  "loose_db = empty_db\<lparr>documents := [''a'']\<rparr>"

definition junk_dir :: directory where
  "junk_dir =
     \<lparr>index_faiss = Unreadable, documents_pkl = Missing, metadata_pkl = Missing,
      model_name_txt = Missing\<rparr>"

definition stale_dir :: directory where
  "stale_dir =
     \<lparr>index_faiss = Holds \<lparr>dimension = 1, vectors = [[1], [3]]\<rparr>, documents_pkl = Missing,
      metadata_pkl = Missing, model_name_txt = Missing\<rparr>"

definition headless_dir :: directory where
  "headless_dir =
     \<lparr>index_faiss = Missing, documents_pkl = Holds [''a'', ''bcd''],
      metadata_pkl = Holds two_store, model_name_txt = Holds ''m''\<rparr>"

definition stale_db :: vector_database where
  "stale_db = empty_db\<lparr>index := Some \<lparr>dimension = 1, vectors = [[1], [3]]\<rparr>\<rparr>"

text \<open>
  The answers of \<open>two_db\<close> to the query \<open>'xy'\<close>, under the exact metric: both
  documents are at distance 1; with \<open>k = 1\<close> the answer is the first of them.
\<close>

definition tie_results :: "search_result list" where
  "tie_results =
     [\<lparr>rank = 1, document_idx = 0, distance = 1, text_of = ''a'',
       metadata_of = [''document_idx'' \<mapsto> PInt 0]\<rparr>,
      \<lparr>rank = 2, document_idx = 1, distance = 1, text_of = ''bcd'',
       metadata_of = [''document_idx'' \<mapsto> PInt 1]\<rparr>]"

definition first_result :: "search_result list" where
  "first_result =
     [\<lparr>rank = 1, document_idx = 0, distance = 1, text_of = ''a'',
       metadata_of = [''document_idx'' \<mapsto> PInt 0]\<rparr>]"

section \<open>Properties\<close>

subsection \<open>Worked examples\<close>

text \<open>The definitions that evaluate a call of \<open>add_documents\<close>, and of \<open>search\<close>.\<close>

lemmas add_documents_eval = add_documents_def contents_def generate_embeddings_def index_create_def shape1_def
  index_add_def Let_def length_model_def pair_model_def failing_model_def short_model_def

lemmas search_eval = search_def generate_embeddings_def index_search_def l2sqr_def hit_key_def
  length_model_def pair_model_def failing_model_def

lemma add_two:
  "add_documents [] empty_db (Separate [''a'', ''bcd'']) None = (None, two_store, two_db)"
  by (simp add: add_documents_eval empty_db_def two_store_def two_db_def)

lemma add_wide:
  "add_documents two_store wide_db (Separate [''x'']) None =
     (Some DimensionMismatch, two_store, wide_db)"
  by (simp add: add_documents_eval wide_db_def two_db_def)

lemma add_wide_short:
  "add_documents two_store wide_db (Separate [''x'']) (Some []) =
     (Some DimensionMismatch, two_store, wide_db)"
  by (simp add: add_documents_eval wide_db_def two_db_def)

lemma add_mute:
  "add_documents two_store mute_db (Separate [''x'']) (Some []) =
     (Some EmbeddingError, two_store, mute_db)"
  by (simp add: add_documents_eval mute_db_def two_db_def)

lemma add_orphan:
  "add_documents [] empty_db (Separate [''a'', ''bcd'']) (Some []) =
     (Some LengthMismatch, [], orphan_db)"
  by (simp add: add_documents_eval empty_db_def orphan_db_def two_db_def)

lemma add_orphan_one:
  "add_documents [Map.empty] empty_db (Separate [''a'', ''bcd'']) (Some [0]) =
     (Some LengthMismatch, [Map.empty], orphan_db)"
  by (simp add: add_documents_eval empty_db_def orphan_db_def two_db_def)

lemma add_own_none:
  "add_documents two_store two_db Own None = (None, doubled_store, doubled_db)"
  by (simp add: add_documents_eval two_db_def two_store_def doubled_store_def doubled_db_def)

lemma add_own_four:
  "add_documents six_store two_db Own (Some [2, 3, 4, 5]) = (None, doubled_store, doubled_db)"
  by (simp add: add_documents_eval two_db_def two_store_def six_store_def doubled_store_def doubled_db_def)

lemma add_own_one:
  "add_documents two_store two_db Own (Some [0]) = (Some LengthMismatch, two_store, grown_db)"
  by (simp add: add_documents_eval two_db_def grown_db_def doubled_db_def)

lemma add_short:
  "add_documents [] short_db (Separate [''a'', ''bcd'']) None = (None, two_store, lean_db)"
  by (simp add: add_documents_eval short_db_def empty_db_def two_store_def lean_db_def)

lemma strip_m: "strip ''m'' = ''m''"
  by (simp add: strip_def is_space_def)

lemma load_loose: "load hub [] loose_dir = Inr ([], loose_db)"
  by (simp add: load_def loose_dir_def strip_m init_def hub_def loose_db_def empty_db_def)

lemma load_headless: "load hub [] headless_dir = Inr (two_store, headless_db)"
  by (simp add: load_def headless_dir_def strip_m init_def hub_def headless_db_def two_db_def
      two_store_def)

lemma load_stale: "load hub [] (save [] empty_db stale_dir) = Inr ([], stale_db)"
  by (simp add: load_def save_def stale_dir_def strip_m init_def hub_def stale_db_def empty_db_def)

lemma load_two: "load hub [] (save two_store two_db no_dir) = Inr (two_store, two_db)"
  by (simp add: load_def save_def no_dir_def strip_m init_def hub_def two_db_def two_store_def)

lemma load_headless_stale:
  "load hub [] (save two_store headless_db stale_dir) = Inr (two_store, two_db)"
  by (simp add: load_def save_def stale_dir_def strip_m init_def hub_def headless_db_def
      two_db_def two_store_def)

lemma search_two: "search l2sqr two_store two_db ''xy'' 5 = Inr tie_results"
  by (simp add: search_eval two_db_def two_store_def tie_results_def)

lemma search_first: "search l2sqr two_store two_db ''xy'' 1 = Inr first_result"
  by (simp add: search_eval two_db_def two_store_def first_result_def)

lemma search_orphan: "search l2sqr [] orphan_db ''xy'' 5 = Inl NotFound"
  by (simp add: search_eval orphan_db_def two_db_def)

lemma search_surplus: "search l2sqr two_store surplus_db ''xyz'' 5 = Inl NotFound"
  by (simp add: search_eval surplus_db_def two_db_def)

lemma search_wide: "search l2sqr two_store wide_db ''xy'' 5 = Inl DimensionMismatch"
  by (simp add: search_eval wide_db_def two_db_def)

lemma search_mute: "search l2sqr two_store mute_db ''xy'' 5 = Inl EmbeddingError"
  by (simp add: search_eval mute_db_def two_db_def)

lemma search_hollow: "search l2sqr two_store hollow_db ''xy'' 5 = Inl EmptyIndex"
  by (simp add: search_eval hollow_db_def two_db_def)

lemma search_headless: "search fdist two_store headless_db ''xy'' 5 = Inr []"
  by (simp add: search_def headless_db_def two_db_def)

subsection \<open>Insertion\<close>

lemma index_update_same: "index db = Some ix \<Longrightarrow> db\<lparr>index := Some ix\<rparr> = db"
  by (cases db) simp

text \<open>
  C10. A call of \<open>add_documents\<close> with an empty list of documents returns normally
  and leaves the store of dictionaries and the database (index, documents, metadata) as
  they were, whatever metadata is passed. The embedder is not called: the outcome is the
  same for every embedder \<open>m\<close>, one that fails on every batch included. The same holds
  when the argument is the document list of the database itself and that list is empty.
\<close>

theorem add_documents_empty:
  "add_documents h db (Separate []) md = (None, h, db) \<and>
   add_documents h (db\<lparr>model := m\<rparr>) (Separate []) md = (None, h, db\<lparr>model := m\<rparr>) \<and>
   add_documents h (db\<lparr>documents := []\<rparr>) Own md = (None, h, db\<lparr>documents := []\<rparr>)"
  by (simp add: add_documents_def contents_def)

text \<open>
  C8. After a call of \<open>add_documents\<close> with a non-empty batch that returns normally,
  \<open>total_count\<close> is the count before the call plus the size of the batch, the number
  of texts that the argument holds when the call is made.
\<close>

theorem add_documents_total_count:
  "contents db d \<noteq> [] \<Longrightarrow> add_documents h db d md = (None, h', db') \<Longrightarrow>
   total_count db' = total_count db + length (contents db d)"
  by (auto simp: add_documents_def total_count_def Let_def
      split: if_splits sum.splits option.splits)

theorem add_documents_total_count_witness:
  "contents empty_db (Separate [''a'', ''bcd'']) \<noteq> [] \<and>
   add_documents [] empty_db (Separate [''a'', ''bcd'']) None = (None, two_store, two_db) \<and>
   total_count two_db = total_count empty_db + 2"
  using add_documents_total_count [of empty_db "Separate [''a'', ''bcd'']" "[]" None
      two_store two_db] add_two
  by (simp add: contents_def)

text \<open>
  C7. The dimension of the index is fixed by the first batch that is inserted: a
  first call that returns normally leaves an index whose dimension is the width of the
  embeddings, and no later call changes the dimension. A later call whose embeddings
  hold a vector of another width fails with \<open>DimensionMismatch\<close> and leaves the store
  and the database as they were; in particular \<open>total_count\<close> is what it was.
\<close>

theorem add_documents_dimension:
  "(index db0 = None \<and> contents db0 d0 \<noteq> [] \<and>
      generate_embeddings db0 (contents db0 d0) = Inr emb0 \<and>
      add_documents h0 db0 d0 md0 = (None, h0', db0')
    \<longrightarrow> map_option dimension (index db0') = Some (shape1 emb0)) \<and>
   (index db1 = Some ix1 \<and> add_documents h1 db1 d1 md1 = (r1, h1', db1')
    \<longrightarrow> map_option dimension (index db1') = Some (dimension ix1)) \<and>
   (index db = Some ix \<and> contents db d \<noteq> [] \<and>
      generate_embeddings db (contents db d) = Inr emb \<and>
      (\<exists>v \<in> set emb. length v \<noteq> dimension ix)
    \<longrightarrow> add_documents h db d md = (Some DimensionMismatch, h, db) \<and>
        total_count (snd (snd (add_documents h db d md))) = total_count db)"
proof (intro conjI impI)
  assume "index db0 = None \<and> contents db0 d0 \<noteq> [] \<and>
      generate_embeddings db0 (contents db0 d0) = Inr emb0 \<and>
      add_documents h0 db0 d0 md0 = (None, h0', db0')"
  then show "map_option dimension (index db0') = Some (shape1 emb0)"
    by (auto simp: add_documents_def Let_def index_add_def index_create_def
        split: if_splits option.splits)
next
  assume "index db1 = Some ix1 \<and> add_documents h1 db1 d1 md1 = (r1, h1', db1')"
  then show "map_option dimension (index db1') = Some (dimension ix1)"
    by (auto simp: add_documents_def Let_def index_add_def
        split: if_splits option.splits sum.splits)
next
  assume a: "index db = Some ix \<and> contents db d \<noteq> [] \<and>
      generate_embeddings db (contents db d) = Inr emb \<and>
      (\<exists>v \<in> set emb. length v \<noteq> dimension ix)"
  then have "index_add ix emb = Inl DimensionMismatch"
    by (auto simp: index_add_def list_all_iff)
  with a show "add_documents h db d md = (Some DimensionMismatch, h, db)"
    by (simp add: add_documents_def Let_def index_update_same)
  then show "total_count (snd (snd (add_documents h db d md))) = total_count db"
    by simp
qed

theorem add_documents_dimension_witness:
  "(index empty_db = None \<and> contents empty_db (Separate [''a'', ''bcd'']) \<noteq> [] \<and>
      generate_embeddings empty_db (contents empty_db (Separate [''a'', ''bcd''])) =
        Inr [[1], [3]] \<and>
      add_documents [] empty_db (Separate [''a'', ''bcd'']) None = (None, two_store, two_db)) \<and>
   map_option dimension (index two_db) = Some (shape1 [[1], [3]]) \<and>
   (index wide_db = Some \<lparr>dimension = 1, vectors = [[1], [3]]\<rparr> \<and>
      contents wide_db (Separate [''x'']) \<noteq> [] \<and>
      generate_embeddings wide_db (contents wide_db (Separate [''x''])) = Inr [[1, 0]] \<and>
      (\<exists>v \<in> set [[1, 0 :: real]].
         length v \<noteq> dimension \<lparr>dimension = 1, vectors = [[1], [3]]\<rparr>)) \<and>
   add_documents two_store wide_db (Separate [''x'']) None =
     (Some DimensionMismatch, two_store, wide_db) \<and>
   map_option dimension (index wide_db) = Some 1 \<and>
   total_count (snd (snd (add_documents two_store wide_db (Separate [''x'']) None))) =
     total_count wide_db"
  using add_documents_dimension [of empty_db "Separate [''a'', ''bcd'']" "[[1], [3]]" "[]" None
      two_store two_db
      wide_db "\<lparr>dimension = 1, vectors = [[1], [3]]\<rparr>" two_store "Separate [''x'']" None
      "Some DimensionMismatch" two_store wide_db
      wide_db "\<lparr>dimension = 1, vectors = [[1], [3]]\<rparr>" "Separate [''x'']" "[[1, 0]]"
      two_store None]
    add_two add_wide
  by (simp add: generate_embeddings_def contents_def empty_db_def length_model_def wide_db_def
      pair_model_def two_db_def shape1_def)

text \<open>
  C1, as stated, fails, in each of these calls with a metadata list whose length is
  not the number of texts. With an empty list of documents and one dictionary the call
  returns normally. With two documents and an empty metadata list the call fails with
  \<open>LengthMismatch\<close>, but the index and the document list already hold the batch:
  \<open>total_count\<close> went from 0 to 2. With the document list of the database itself, of
  two documents, and four dictionaries the call returns normally: the list has four
  elements when the assertion compares. Where the index refuses the embeddings, or the
  embedder fails, the error is not \<open>LengthMismatch\<close>.
\<close>

theorem add_documents_length_mismatch_counterexample:
  "length [0 :: addr] \<noteq> length (contents empty_db (Separate [])) \<and>
   add_documents [Map.empty] empty_db (Separate []) (Some [0]) =
     (None, [Map.empty], empty_db) \<and>
   length ([] :: addr list) \<noteq> length (contents empty_db (Separate [''a'', ''bcd''])) \<and>
   add_documents [] empty_db (Separate [''a'', ''bcd'']) (Some []) =
     (Some LengthMismatch, [], orphan_db) \<and>
   orphan_db \<noteq> empty_db \<and> total_count orphan_db = 2 \<and> total_count empty_db = 0 \<and>
   length [2, 3, 4, 5 :: addr] \<noteq> length (contents two_db Own) \<and>
   add_documents six_store two_db Own (Some [2, 3, 4, 5]) = (None, doubled_store, doubled_db) \<and>
   length ([] :: addr list) \<noteq> length (contents wide_db (Separate [''x''])) \<and>
   add_documents two_store wide_db (Separate [''x'']) (Some []) =
     (Some DimensionMismatch, two_store, wide_db) \<and>
   length ([] :: addr list) \<noteq> length (contents mute_db (Separate [''x''])) \<and>
   add_documents two_store mute_db (Separate [''x'']) (Some []) =
     (Some EmbeddingError, two_store, mute_db)"
  using add_orphan add_own_four add_wide_short add_mute
  by (simp add: add_documents_def contents_def orphan_db_def two_db_def empty_db_def
      total_count_def)

text \<open>
  A call fails with \<open>LengthMismatch\<close> only where the assertion is reached and
  compares unequal lengths.
\<close>

lemma add_documents_LengthMismatch:
  assumes "add_documents h db d (Some ms) = (Some LengthMismatch, h', db')"
  shows "contents db d \<noteq> [] \<and>
     length ms \<noteq> (case d of Separate docs \<Rightarrow> length docs | Own \<Rightarrow> 2 * length (documents db)) \<and>
     (\<exists>emb. generate_embeddings db (contents db d) = Inr emb \<and>
        (\<forall>v \<in> set emb.
           length v = (case index db of None \<Rightarrow> shape1 emb | Some ix \<Rightarrow> dimension ix)))"
proof (cases "model db (contents db d)")
  case None
  with assms show ?thesis
    by (auto simp: add_documents_def generate_embeddings_def Let_def split: if_splits)
next
  case (Some emb)
  then have g: "generate_embeddings db (contents db d) = Inr emb"
    by (simp add: generate_embeddings_def)
  show ?thesis
  proof (cases d)
    case (Separate docs)
    with assms g show ?thesis
      by (auto simp: add_documents_def contents_def Let_def index_add_def index_create_def
          list_all_iff split: if_splits option.splits)
  next
    case Own
    with assms g show ?thesis
      by (auto simp: add_documents_def contents_def Let_def index_add_def index_create_def
          list_all_iff split: if_splits option.splits)
  qed
qed

text \<open>
  C1, amended. A call of \<open>add_documents\<close> with a non-empty list of documents and a
  metadata list of another length fails with \<open>LengthMismatch\<close>, when the embedder
  returns embeddings that the index takes, unless the list of documents is that of the
  database itself and the metadata list is twice as long; no dictionary has been
  written to and the metadata list of the database is what it was. In no other case
  does a call fail with \<open>LengthMismatch\<close>: only with a non-empty list of documents,
  embeddings that the index takes, and a metadata list whose length is not that of the
  list of documents, or not twice the length where that list is the database's own.
  With an empty list of documents the call returns normally, whatever the metadata, and
  changes nothing.
\<close>

theorem add_documents_length_mismatch:
  "(contents db d \<noteq> [] \<and> length ms \<noteq> length (contents db d) \<and>
      (d = Own \<longrightarrow> length ms \<noteq> 2 * length (documents db)) \<and>
      generate_embeddings db (contents db d) = Inr emb \<and>
      (\<forall>v \<in> set emb.
         length v = (case index db of None \<Rightarrow> shape1 emb | Some ix \<Rightarrow> dimension ix))
    \<longrightarrow> (\<exists>db'. add_documents h db d (Some ms) = (Some LengthMismatch, h, db') \<and>
          metadata db' = metadata db)) \<and>
   (add_documents h1 db1 d1 (Some ms1) = (Some LengthMismatch, h1', db1')
    \<longrightarrow> contents db1 d1 \<noteq> [] \<and>
        length ms1 \<noteq>
          (case d1 of Separate docs \<Rightarrow> length docs | Own \<Rightarrow> 2 * length (documents db1)) \<and>
        (\<exists>emb1. generate_embeddings db1 (contents db1 d1) = Inr emb1 \<and>
           (\<forall>v \<in> set emb1.
              length v =
                (case index db1 of None \<Rightarrow> shape1 emb1 | Some ix \<Rightarrow> dimension ix)))) \<and>
   (contents db0 d0 = [] \<longrightarrow> add_documents h0 db0 d0 (Some ms0) = (None, h0, db0))"
proof -
  have "\<exists>db'. add_documents h db d (Some ms) = (Some LengthMismatch, h, db') \<and>
          metadata db' = metadata db"
    if "contents db d \<noteq> [] \<and> length ms \<noteq> length (contents db d) \<and>
      (d = Own \<longrightarrow> length ms \<noteq> 2 * length (documents db)) \<and>
      generate_embeddings db (contents db d) = Inr emb \<and>
      (\<forall>v \<in> set emb.
         length v = (case index db of None \<Rightarrow> shape1 emb | Some ix \<Rightarrow> dimension ix))"
    using that
    by (cases d)
      (auto simp: add_documents_def contents_def Let_def index_add_def index_create_def
        list_all_iff split: option.splits)
  moreover have "add_documents h0 db0 d0 (Some ms0) = (None, h0, db0)" if "contents db0 d0 = []"
    using that by (simp add: add_documents_def)
  ultimately show ?thesis
    using add_documents_LengthMismatch [of h1 db1 d1 ms1 h1' db1'] by blast
qed

theorem add_documents_length_mismatch_witness:
  "(contents empty_db (Separate [''a'', ''bcd'']) \<noteq> [] \<and>
      length [0 :: addr] \<noteq> length (contents empty_db (Separate [''a'', ''bcd''])) \<and>
      generate_embeddings empty_db (contents empty_db (Separate [''a'', ''bcd''])) =
        Inr [[1], [3]] \<and>
      list_all (\<lambda>v. length v =
          (case index empty_db of None \<Rightarrow> shape1 [[1], [3]] | Some ix \<Rightarrow> dimension ix))
        [[1], [3 :: real]]) \<and>
   add_documents [Map.empty] empty_db (Separate [''a'', ''bcd'']) (Some [0]) =
     (Some LengthMismatch, [Map.empty], orphan_db) \<and>
   metadata orphan_db = metadata empty_db \<and>
   (contents two_db Own \<noteq> [] \<and> length [0 :: addr] \<noteq> length (contents two_db Own) \<and>
      length [0 :: addr] \<noteq> 2 * length (documents two_db) \<and>
      generate_embeddings two_db (contents two_db Own) = Inr [[1], [3]]) \<and>
   add_documents two_store two_db Own (Some [0]) = (Some LengthMismatch, two_store, grown_db) \<and>
   metadata grown_db = metadata two_db \<and>
   contents empty_db (Separate []) = [] \<and>
   add_documents [Map.empty] empty_db (Separate []) (Some [0]) = (None, [Map.empty], empty_db)"
  using add_documents_length_mismatch [of empty_db "Separate [''a'', ''bcd'']" "[0]"
      "[[1], [3]]" "[Map.empty]"
      "[Map.empty]" empty_db "Separate [''a'', ''bcd'']" "[0]" "[Map.empty]" orphan_db
      empty_db "Separate []" "[Map.empty]" "[0]"]
    add_documents_length_mismatch [of two_db Own "[0]" "[[1], [3]]" two_store
      two_store two_db Own "[0]" two_store grown_db]
    add_orphan_one add_own_one
  by (simp add: generate_embeddings_def contents_def empty_db_def length_model_def shape1_def
      two_db_def orphan_db_def grown_db_def doubled_db_def)

subsection \<open>The length invariant\<close>

text \<open>
  C2, as stated, fails: after a call of \<open>add_documents\<close> that fails with
  \<open>LengthMismatch\<close> (two vectors and two documents, no metadata record); after the
  call \<open>db.add_documents(db.documents)\<close>, which returns normally (four vectors, four
  documents, six metadata records); after a call that returns normally with an embedder
  that gave one row for two texts; after a \<open>load\<close> from a directory whose files
  disagree (one document, no vector, no metadata record); and after a \<open>load\<close> of a
  new database that was saved where an older \<open>index.faiss\<close> lay (two vectors, no
  document).
\<close>

theorem store_inv_counterexample:
  "store_inv empty_db \<and>
   add_documents [] empty_db (Separate [''a'', ''bcd'']) (Some []) =
     (Some LengthMismatch, [], orphan_db) \<and>
   \<not> store_inv orphan_db \<and>
   store_inv two_db \<and>
   add_documents two_store two_db Own None = (None, doubled_store, doubled_db) \<and>
   \<not> store_inv doubled_db \<and>
   store_inv short_db \<and>
   add_documents [] short_db (Separate [''a'', ''bcd'']) None = (None, two_store, lean_db) \<and>
   \<not> store_inv lean_db \<and>
   load hub [] loose_dir = Inr ([], loose_db) \<and> \<not> store_inv loose_db \<and>
   load hub [] (save [] empty_db stale_dir) = Inr ([], stale_db) \<and> \<not> store_inv stale_db"
  using add_orphan add_own_none add_short load_loose load_stale
  by (simp add: store_inv_def index_len_def empty_db_def orphan_db_def two_db_def loose_db_def
      doubled_db_def short_db_def lean_db_def stale_db_def)

text \<open>
  What a call of \<open>add_documents\<close> makes of the invariant, outcome by outcome.
\<close>

lemma add_documents_store_inv:
  assumes "store_inv db" and "add_documents h db d md = (r, h', db')"
  shows "store_inv db' \<longleftrightarrow>
     r \<noteq> Some LengthMismatch \<and>
     (r = None \<and> contents db d \<noteq> [] \<longrightarrow>
        d \<noteq> Own \<and>
        (\<exists>emb. generate_embeddings db (contents db d) = Inr emb \<and>
           length emb = length (contents db d)))"
proof (cases "contents db d = []")
  case True
  with assms show ?thesis by (simp add: add_documents_def)
next
  case ne: False
  show ?thesis
  proof (cases "model db (contents db d)")
    case None
    with assms ne show ?thesis
      by (auto simp: add_documents_def generate_embeddings_def)
  next
    case (Some emb)
    then have g: "generate_embeddings db (contents db d) = Inr emb"
      by (simp add: generate_embeddings_def)
    show ?thesis
    proof (cases d)
      case (Separate docs)
      with assms ne g show ?thesis
        by (auto simp: add_documents_def contents_def Let_def index_add_def index_create_def
            store_inv_def index_len_def split: if_splits option.splits)
    next
      case Own
      with assms ne g show ?thesis
        by (auto simp: add_documents_def contents_def Let_def index_add_def index_create_def
            store_inv_def index_len_def split: if_splits option.splits)
    qed
  qed
qed

text \<open>
  C2, amended. The number of vectors of the index equals the number of documents and
  the number of metadata records after construction. After a call of \<open>add_documents\<close>
  that was made where they were equal, they are equal exactly when the call did not
  fail with \<open>LengthMismatch\<close> and, if it returned normally for a non-empty batch,
  the list of documents was not that of the database itself and the embedder returned
  one vector per text. After a \<open>load\<close> they are equal exactly when the files read
  hold as many vectors (none, for a missing index file) and metadata records as
  documents; after a \<open>load\<close> of what \<open>save\<close> wrote for a database where they were
  equal, exactly when the database had an index or the directory held no index file, or
  one without vectors. \<open>search\<close> returns no database: it assigns to none of the
  fields.
\<close>

theorem store_inv_kept:
  "(init fp name = Inr db0 \<longrightarrow> store_inv db0) \<and>
   (store_inv db \<and> add_documents h db d md = (r, h', db')
    \<longrightarrow> (store_inv db' \<longleftrightarrow>
          r \<noteq> Some LengthMismatch \<and>
          (r = None \<and> contents db d \<noteq> [] \<longrightarrow>
             d \<noteq> Own \<and>
             (\<exists>emb. generate_embeddings db (contents db d) = Inr emb \<and>
                length emb = length (contents db d))))) \<and>
   (load fp1 h1 dir1 = Inr (h1', db1')
    \<longrightarrow> (store_inv db1' \<longleftrightarrow>
          (\<exists>docs metas. documents_pkl dir1 = Holds docs \<and> metadata_pkl dir1 = Holds metas \<and>
             length metas = length docs \<and>
             (case index_faiss dir1 of Holds ix \<Rightarrow> length (vectors ix) | _ \<Rightarrow> 0) =
               length docs))) \<and>
   (store_inv db2 \<and> load fp2 h2 (save h3 db2 dir2) = Inr (h2', db2')
    \<longrightarrow> (store_inv db2' \<longleftrightarrow>
          index db2 \<noteq> None \<or>
          (case index_faiss dir2 of Holds ix \<Rightarrow> vectors ix = [] | _ \<Rightarrow> True)))"
proof (intro conjI impI)
  assume "init fp name = Inr db0"
  then show "store_inv db0"
    by (auto simp: init_def store_inv_def index_len_def split: option.splits)
next
  assume "store_inv db \<and> add_documents h db d md = (r, h', db')"
  then have a: "store_inv db" and b: "add_documents h db d md = (r, h', db')"
    by simp_all
  show "store_inv db' \<longleftrightarrow>
          r \<noteq> Some LengthMismatch \<and>
          (r = None \<and> contents db d \<noteq> [] \<longrightarrow>
             d \<noteq> Own \<and>
             (\<exists>emb. generate_embeddings db (contents db d) = Inr emb \<and>
                length emb = length (contents db d)))"
    by (rule add_documents_store_inv [OF a b])
next
  assume "load fp1 h1 dir1 = Inr (h1', db1')"
  then show "store_inv db1' \<longleftrightarrow>
          (\<exists>docs metas. documents_pkl dir1 = Holds docs \<and> metadata_pkl dir1 = Holds metas \<and>
             length metas = length docs \<and>
             (case index_faiss dir1 of Holds ix \<Rightarrow> length (vectors ix) | _ \<Rightarrow> 0) =
               length docs)"
    by (auto simp: load_def init_def store_inv_def index_len_def Let_def
        split: option.splits sum.splits artifact.splits)
next
  assume "store_inv db2 \<and> load fp2 h2 (save h3 db2 dir2) = Inr (h2', db2')"
  then show "store_inv db2' \<longleftrightarrow>
          index db2 \<noteq> None \<or>
          (case index_faiss dir2 of Holds ix \<Rightarrow> vectors ix = [] | _ \<Rightarrow> True)"
    by (auto simp: load_def save_def init_def store_inv_def index_len_def Let_def
        split: option.splits sum.splits artifact.splits)
qed

theorem store_inv_kept_witness:
  "init hub ''m'' = Inr empty_db \<and> store_inv empty_db \<and>
   add_documents [] empty_db (Separate [''a'', ''bcd'']) None = (None, two_store, two_db) \<and>
   store_inv two_db \<and>
   generate_embeddings empty_db (contents empty_db (Separate [''a'', ''bcd''])) =
     Inr [[1], [3]] \<and>
   length [[1], [3 :: real]] = length (contents empty_db (Separate [''a'', ''bcd''])) \<and>
   load hub [] (save two_store two_db no_dir) = Inr (two_store, two_db) \<and>
   index two_db \<noteq> None"
  using store_inv_kept [of hub "''m''" empty_db
      empty_db "[]" "Separate [''a'', ''bcd'']" None None two_store two_db
      hub "[]" "save two_store two_db no_dir" two_store two_db
      two_db hub "[]" two_store no_dir two_store two_db]
    add_two load_two
  by (simp add: init_def hub_def empty_db_def generate_embeddings_def contents_def
      length_model_def two_db_def save_def no_dir_def two_store_def)

subsection \<open>Stamping the document index\<close>

text \<open>
  Where the dictionaries of a batch are distinct objects, the loop writes to each the
  position of its document; with \<open>metadata = None\<close> they are new objects, and so
  distinct.
\<close>

lemma length_stamp: "length (stamp n ms h) = length h"
  by (induction ms arbitrary: n h) auto

lemma stamp_other: "a \<notin> set ms \<Longrightarrow> stamp n ms h ! a = h ! a"
  by (induction ms arbitrary: n h) auto

lemma stamp_distinct:
  "distinct ms \<Longrightarrow> \<forall>a \<in> set ms. a < length h \<Longrightarrow> j < length ms \<Longrightarrow>
   (stamp n ms h ! (ms ! j)) ''document_idx'' = Some (PInt (int (n + j)))"
proof (induction ms arbitrary: n h j)
  case Nil
  then show ?case by simp
next
  case (Cons a ms)
  show ?case
  proof (cases j)
    case 0
    with Cons.prems show ?thesis
      by (simp add: stamp_other)
  next
    case (Suc i)
    with Cons.prems Cons.IH [of "h[a := (h ! a)(''document_idx'' \<mapsto> PInt (int n))]" i "Suc n"]
    show ?thesis by simp
  qed
qed

lemma add_documents_fresh_stamps:
  assumes "add_documents h db (Separate docs) None = (None, h', db')" and "j < length docs"
  shows "metadata db' ! (length (metadata db) + j) = length h + j \<and>
         (h' ! (length h + j)) ''document_idx'' = Some (PInt (int (length (documents db) + j)))"
proof -
  from assms have ne: "docs \<noteq> []" by auto
  let ?ms = "[length h ..< length h + length docs]"
  let ?h1 = "h @ replicate (length docs) Map.empty"
  from assms(1) ne have h': "h' = stamp (length (documents db)) ?ms ?h1"
    and m: "metadata db' = metadata db @ ?ms"
    by (auto simp: add_documents_def contents_def Let_def split: sum.splits if_splits)
  have "(stamp (length (documents db)) ?ms ?h1 ! (?ms ! j)) ''document_idx'' =
      Some (PInt (int (length (documents db) + j)))"
    using assms(2) by (intro stamp_distinct) auto
  with assms(2) show ?thesis
    by (simp add: h' m nth_append)
qed

text \<open>
  C9 fails where one dictionary object stands for two documents of a batch: the call
  \<open>add_documents(['a', 'bcd'], [m, m])\<close> on a new database returns normally, and the
  metadata of document 0 has \<open>document_idx = 1\<close>, since the second round of the loop
  writes to the same object. The first hit of a search for \<open>'a'\<close> is document 0, with
  \<open>metadata['document_idx'] = 1\<close>.
\<close>

theorem stamp_shared_dictionary:
  "add_documents [Map.empty] empty_db (Separate [''a'', ''bcd'']) (Some [0, 0]) =
     (None, shared_store, shared_db) \<and>
   (shared_store ! (metadata shared_db ! 0)) ''document_idx'' = Some (PInt 1) \<and>
   search l2sqr shared_store shared_db ''a'' 1 =
     Inr [\<lparr>rank = 1, document_idx = 0, distance = 0, text_of = ''a'',
           metadata_of = [''document_idx'' \<mapsto> PInt 1]\<rparr>]"
  by (simp add: add_documents_def contents_def empty_db_def length_model_def
      generate_embeddings_def index_create_def shape1_def index_add_def Let_def shared_store_def
      shared_db_def two_db_def search_def index_search_def l2sqr_def hit_key_def)

subsection \<open>Search\<close>

text \<open>
  The ranking of the index is strictly ascending in the key (distance, position), and
  it holds every position with its distance.
\<close>

lemma set_ranked:
  "set (sort_key hit_key (enumerate 0 ds)) = {p. fst p < length ds \<and> snd p = ds ! fst p}"
  by (auto simp: in_set_enumerate_eq)

lemma inj_hit_key: "inj_on hit_key A"
  by (auto simp: inj_on_def hit_key_def prod_eq_iff)

lemma strict_ranked:
  "sorted_wrt (<) (map hit_key (sort_key hit_key (enumerate 0 ds)))"
  by (simp add: strict_sorted_iff distinct_map inj_hit_key)

lemma hit_key_less:
  "hit_key a < hit_key b \<longleftrightarrow> snd a < snd b \<or> (snd a = snd b \<and> fst a < fst b)"
  by (auto simp: hit_key_def)

lemma ranked_take_drop:
  assumes "a \<in> set (take k (sort_key hit_key (enumerate 0 ds)))"
    and "b \<in> set (drop k (sort_key hit_key (enumerate 0 ds)))"
  shows "hit_key a < hit_key b"
proof -
  let ?S = "sort_key hit_key (enumerate 0 ds)"
  have "sorted_wrt (<) (map hit_key (take k ?S @ drop k ?S))"
    using strict_ranked [of ds] by simp
  then show ?thesis
    using assms unfolding map_append sorted_wrt_append by auto
qed

text \<open>
  The formatting loop keeps the hits in their order when it succeeds, and it succeeds
  exactly when every hit is a position of both lists.
\<close>

lemma format_results_Inr:
  assumes "format_results h db i hits = Inr rs"
  shows "map (\<lambda>r. (document_idx r, distance r)) rs = hits \<and>
         (\<forall>j < length rs. rank (rs ! j) = Suc (i + j)) \<and>
         (\<forall>r \<in> set rs. text_of r = documents db ! document_idx r \<and>
            metadata_of r = h ! (metadata db ! document_idx r))"
  using assms
proof (induction hits arbitrary: i rs)
  case Nil
  then show ?case by simp
next
  case (Cons p hits)
  obtain idx dis where p: "p = (idx, dis)" by (cases p)
  from Cons.prems p obtain rs' where
    rs': "format_results h db (Suc i) hits = Inr rs'"
    and rs: "rs = \<lparr>rank = i + 1, document_idx = idx, distance = dis,
                  text_of = documents db ! idx, metadata_of = h ! (metadata db ! idx)\<rparr> # rs'"
    by (auto split: if_splits sum.splits)
  from Cons.IH [OF rs'] show ?case
    by (auto simp: rs p nth_Cons split: nat.splits)
qed

lemma format_results_valid:
  "format_results h db i hits = Inr rs \<Longrightarrow>
   \<forall>p \<in> set hits. fst p < length (documents db) \<and> fst p < length (metadata db)"
proof (induction hits arbitrary: i rs)
  case Nil
  then show ?case by simp
next
  case (Cons p hits)
  obtain idx dis where p: "p = (idx, dis)" by (cases p)
  from Cons.prems p obtain rs' where "format_results h db (Suc i) hits = Inr rs'"
    and "idx < length (documents db) \<and> idx < length (metadata db)"
    by (auto split: if_splits sum.splits)
  with Cons.IH [of "Suc i" rs'] p show ?case by simp
qed

lemma format_results_ok:
  assumes "\<forall>p \<in> set hits. fst p < length (documents db) \<and> fst p < length (metadata db)"
  shows "\<exists>rs. format_results h db i hits = Inr rs"
  using assms
proof (induction hits arbitrary: i)
  case Nil
  then show ?case by simp
next
  case (Cons p hits)
  obtain idx dis where p: "p = (idx, dis)" by (cases p)
  from Cons.prems have "\<forall>p \<in> set hits. fst p < length (documents db) \<and> fst p < length (metadata db)"
    by simp
  from Cons.IH [OF this, of "Suc i"] obtain rs where "format_results h db (Suc i) hits = Inr rs"
    by blast
  with Cons.prems p show ?case by simp
qed

text \<open>
  What \<open>search\<close> returns, when it returns, is the first \<open>min k (len(self.documents))\<close>
  entries of the ranking. On a database with a document and an index it returns
  exactly when the embedder returns a row, the index answers, and the loop succeeds;
  so it does when the index holds a vector and no more vectors than there are documents
  and metadata records. Without index it returns the empty list.
\<close>

lemma search_Inr:
  assumes "search fdist h db query k = Inr rs"
    and "generate_embeddings db [query] = Inr (q # qs)"
  shows "map (\<lambda>r. (document_idx r, distance r)) rs =
           take (min k (length (documents db)))
             (sort_key hit_key (enumerate 0 (map (fdist q) (stored_vectors db)))) \<and>
         (\<forall>j < length rs. rank (rs ! j) = Suc j) \<and>
         (\<forall>r \<in> set rs. text_of r = documents db ! document_idx r \<and>
            metadata_of r = h ! (metadata db ! document_idx r))"
proof (cases "index db")
  case None
  with assms(1) show ?thesis
    by (simp add: search_def stored_vectors_def)
next
  case (Some ix)
  show ?thesis
  proof (cases "documents db = []")
    case True
    with Some assms(1) show ?thesis
      by (simp add: search_def)
  next
    case False
    with Some assms obtain hits where
      hits: "index_search fdist ix q (min k (length (documents db))) = Inr hits"
      and fr: "format_results h db 0 hits = Inr rs"
      by (auto simp: search_def split: sum.splits)
    from hits have "hits = take (min k (length (documents db)))
             (sort_key hit_key (enumerate 0 (map (fdist q) (stored_vectors db))))"
      by (auto simp: index_search_def stored_vectors_def Some split: if_splits)
    with format_results_Inr [OF fr] show ?thesis
      by simp
  qed
qed

lemma search_returns_iff:
  assumes "documents db \<noteq> []" and "index db = Some ix"
  shows "(\<exists>rs. search fdist h db query k = Inr rs) \<longleftrightarrow>
     (\<exists>q qs hits. generate_embeddings db [query] = Inr (q # qs) \<and>
        index_search fdist ix q (min k (total_count db)) = Inr hits \<and>
        (\<forall>p \<in> set hits. fst p < length (documents db) \<and> fst p < length (metadata db)))"
proof
  assume "\<exists>rs. search fdist h db query k = Inr rs"
  then obtain rs where s: "search fdist h db query k = Inr rs" ..
  with assms obtain q qs hits where g: "generate_embeddings db [query] = Inr (q # qs)"
    and i: "index_search fdist ix q (min k (length (documents db))) = Inr hits"
    and f: "format_results h db 0 hits = Inr rs"
    by (auto simp: search_def split: sum.splits list.splits)
  from format_results_valid [OF f] g i
  show "\<exists>q qs hits. generate_embeddings db [query] = Inr (q # qs) \<and>
        index_search fdist ix q (min k (total_count db)) = Inr hits \<and>
        (\<forall>p \<in> set hits. fst p < length (documents db) \<and> fst p < length (metadata db))"
    by (auto simp: total_count_def)
next
  assume "\<exists>q qs hits. generate_embeddings db [query] = Inr (q # qs) \<and>
        index_search fdist ix q (min k (total_count db)) = Inr hits \<and>
        (\<forall>p \<in> set hits. fst p < length (documents db) \<and> fst p < length (metadata db))"
  then obtain q qs hits where g: "generate_embeddings db [query] = Inr (q # qs)"
    and i: "index_search fdist ix q (min k (length (documents db))) = Inr hits"
    and v: "\<forall>p \<in> set hits. fst p < length (documents db) \<and> fst p < length (metadata db)"
    by (auto simp: total_count_def)
  from format_results_ok [OF v, of h 0] obtain rs where "format_results h db 0 hits = Inr rs" ..
  with assms g i show "\<exists>rs. search fdist h db query k = Inr rs"
    by (simp add: search_def)
qed

lemma search_run:
  assumes "documents db \<noteq> []" and "index db = Some ix" and "vectors ix \<noteq> []"
    and "length (vectors ix) \<le> length (documents db)"
    and "length (vectors ix) \<le> length (metadata db)"
    and "generate_embeddings db [query] = Inr (q # qs)" and "length q = dimension ix"
  shows "\<exists>rs. search fdist h db query k = Inr rs"
proof -
  define hits where "hits = take (min k (length (documents db)))
     (sort_key hit_key (enumerate 0 (map (fdist q) (vectors ix))))"
  have isr: "index_search fdist ix q (min k (length (documents db))) = Inr hits"
    using assms(3,7) by (simp add: index_search_def hits_def)
  have "fst p < length (vectors ix)" if "p \<in> set hits" for p
  proof -
    from that have "p \<in> set (sort_key hit_key (enumerate 0 (map (fdist q) (vectors ix))))"
      unfolding hits_def by (rule in_set_takeD)
    then show ?thesis unfolding set_ranked by simp
  qed
  with assms(4,5)
  have "\<forall>p \<in> set hits. fst p < length (documents db) \<and> fst p < length (metadata db)"
    by fastforce
  from format_results_ok [OF this, of h 0] obtain rs where "format_results h db 0 hits = Inr rs"
    by blast
  with assms(1,2,6) isr show ?thesis
    by (simp add: search_def)
qed

lemma search_no_index: "index db = None \<Longrightarrow> search fdist h db query k = Inr []"
  by (simp add: search_def)

lemma length_stored: "length (stored_vectors db) = index_len db"
  by (simp add: stored_vectors_def index_len_def split: option.splits)

text \<open>
  C5, as stated, fails: on the database that a failed call of \<open>add_documents\<close>
  left behind, which holds two documents, \<open>search\<close> fails with \<open>NotFound\<close>. It
  fails as well where the index holds more vectors than there are documents, where it
  holds none, where the query embedding has another width, and where the embedder
  fails; and a database without index, as \<open>load\<close> returns it from a directory without
  \<open>index.faiss\<close>, answers with the empty list, though it holds two documents.
\<close>

theorem search_nearest_counterexample:
  "documents orphan_db \<noteq> [] \<and>
   add_documents [] empty_db (Separate [''a'', ''bcd'']) (Some []) =
     (Some LengthMismatch, [], orphan_db) \<and>
   search l2sqr [] orphan_db ''xy'' 5 = Inl NotFound \<and>
   documents surplus_db \<noteq> [] \<and> search l2sqr two_store surplus_db ''xyz'' 5 = Inl NotFound \<and>
   documents hollow_db \<noteq> [] \<and> search l2sqr two_store hollow_db ''xy'' 5 = Inl EmptyIndex \<and>
   documents wide_db \<noteq> [] \<and> search l2sqr two_store wide_db ''xy'' 5 = Inl DimensionMismatch \<and>
   documents mute_db \<noteq> [] \<and> search l2sqr two_store mute_db ''xy'' 5 = Inl EmbeddingError \<and>
   documents headless_db \<noteq> [] \<and> load hub [] headless_dir = Inr (two_store, headless_db) \<and>
   search l2sqr two_store headless_db ''xy'' 5 = Inr []"
  using add_orphan search_orphan search_surplus search_hollow search_wide search_mute
    load_headless search_headless [of l2sqr]
  by (simp add: orphan_db_def surplus_db_def hollow_db_def wide_db_def mute_db_def
      headless_db_def two_db_def)

text \<open>
  C5, amended. Whenever \<open>search\<close> returns, for a query whose embedding is \<open>q\<close>, it
  returns as many results as the least of \<open>k\<close>, \<open>total_count\<close> and the number of
  stored vectors, ranked from 1; each result is a stored position with the distance, as
  the index computes it, of its vector to \<open>q\<close>; the results are in ascending order of
  distance, a tie broken by the lower position first, so the distances are
  non-decreasing by rank; and every stored position that is not returned comes after
  every returned one in this order: the results are the nearest. On a database with a
  document and an index, \<open>search\<close> returns exactly when the embedder returns an
  embedding of the query, the index answers the search for it, and every position in
  that answer is a position of the document list and of the metadata list. So it
  returns on every database whose index holds at least one vector and no more vectors
  than there are documents and metadata records, for a query whose embedding has the
  width of the index; and on a database without index, with the empty list.
\<close>

theorem search_nearest:
  "(generate_embeddings db [query] = Inr (q # qs) \<and> search fdist h db query k = Inr rs
    \<longrightarrow> length rs = min k (min (total_count db) (index_len db)) \<and>
        (\<forall>j < length rs. rank (rs ! j) = j + 1) \<and>
        (\<forall>r \<in> set rs. document_idx r < index_len db \<and>
           distance r = fdist q (stored_vectors db ! document_idx r) \<and>
           text_of r = documents db ! document_idx r) \<and>
        sorted_wrt (\<lambda>r s. distance r < distance s \<or>
           (distance r = distance s \<and> document_idx r < document_idx s)) rs \<and>
        sorted (map distance rs) \<and>
        (\<forall>p < index_len db. p \<notin> document_idx ` set rs \<longrightarrow>
           (\<forall>r \<in> set rs. distance r < fdist q (stored_vectors db ! p) \<or>
              (distance r = fdist q (stored_vectors db ! p) \<and> document_idx r < p)))) \<and>
   (documents db2 \<noteq> [] \<and> index db2 = Some ix2
    \<longrightarrow> ((\<exists>rs2. search fdist2 h2 db2 query2 k2 = Inr rs2) \<longleftrightarrow>
          (\<exists>q2 qs2 hits. generate_embeddings db2 [query2] = Inr (q2 # qs2) \<and>
             index_search fdist2 ix2 q2 (min k2 (total_count db2)) = Inr hits \<and>
             (\<forall>p \<in> set hits.
                fst p < length (documents db2) \<and> fst p < length (metadata db2))))) \<and>
   (index db1 = None \<or>
      (index db1 = Some ix1 \<and> documents db1 \<noteq> [] \<and> vectors ix1 \<noteq> [] \<and>
       length (vectors ix1) \<le> length (documents db1) \<and>
       length (vectors ix1) \<le> length (metadata db1) \<and>
       generate_embeddings db1 [query1] = Inr (q1 # qs1) \<and> length q1 = dimension ix1)
    \<longrightarrow> (\<exists>rs1. search fdist1 h1 db1 query1 k1 = Inr rs1))"
proof (rule conjI [OF _ conjI]; rule impI)
  assume a: "generate_embeddings db [query] = Inr (q # qs) \<and> search fdist h db query k = Inr rs"
  define ds where "ds = map (fdist q) (stored_vectors db)"
  define k' where "k' = min k (length (documents db))"
  define S where "S = sort_key hit_key (enumerate 0 ds)"
  define hits where "hits = take k' S"
  have lds: "length ds = index_len db"
    by (simp add: ds_def length_stored)
  have setS: "set S = {p. fst p < length ds \<and> snd p = ds ! fst p}"
    unfolding S_def by (rule set_ranked)
  from a have s: "search fdist h db query k = Inr rs"
    and g: "generate_embeddings db [query] = Inr (q # qs)"
    by simp_all
  from search_Inr [OF s g] have
    rs: "map (\<lambda>r. (document_idx r, distance r)) rs = hits"
      "\<forall>j < length rs. rank (rs ! j) = Suc j"
      "\<forall>r \<in> set rs. text_of r = documents db ! document_idx r \<and>
              metadata_of r = h ! (metadata db ! document_idx r)"
    unfolding hits_def S_def k'_def ds_def by simp_all
  have hits_in: "fst p < index_len db \<and> snd p = fdist q (stored_vectors db ! fst p)"
    if "p \<in> set hits" for p
  proof -
    from that have "p \<in> set S" unfolding hits_def by (rule in_set_takeD)
    then show ?thesis using setS lds by (simp add: ds_def length_stored)
  qed
  have len: "length rs = min k (min (total_count db) (index_len db))"
  proof -
    have "length rs = length hits" using rs(1) by (metis length_map)
    also have "\<dots> = min k' (length ds)" by (simp add: hits_def S_def)
    finally show ?thesis by (simp add: k'_def lds total_count_def min.assoc)
  qed
  have pair_in: "(document_idx r, distance r) \<in> set hits" if "r \<in> set rs" for r
    using that rs(1) by (metis (no_types, lifting) image_eqI set_map)
  have each: "\<forall>r \<in> set rs. document_idx r < index_len db \<and>
              distance r = fdist q (stored_vectors db ! document_idx r) \<and>
              text_of r = documents db ! document_idx r"
    using hits_in [OF pair_in] rs(3) by auto
  have "sorted_wrt (<) (map hit_key hits)"
    unfolding hits_def S_def by (simp add: take_map [symmetric] strict_ranked)
  then have "sorted_wrt (\<lambda>a b. hit_key a < hit_key b) (map (\<lambda>r. (document_idx r, distance r)) rs)"
    by (simp add: sorted_wrt_map rs(1))
  then have lex: "sorted_wrt (\<lambda>r s. distance r < distance s \<or>
              (distance r = distance s \<and> document_idx r < document_idx s)) rs"
    by (simp add: sorted_wrt_map hit_key_less)
  have srt: "sorted (map distance rs)"
    unfolding sorted_map by (rule sorted_wrt_mono_rel [OF _ lex]) auto
  have rest: "distance r < fdist q (stored_vectors db ! p) \<or>
                 (distance r = fdist q (stored_vectors db ! p) \<and> document_idx r < p)"
    if p: "p < index_len db" "p \<notin> document_idx ` set rs" and r: "r \<in> set rs" for p r
  proof -
    let ?b = "(p, ds ! p)"
    have "?b \<in> set S" using p(1) setS lds by simp
    moreover have "?b \<notin> set hits"
    proof
      assume "?b \<in> set hits"
      then have "?b \<in> (\<lambda>r. (document_idx r, distance r)) ` set rs"
        using rs(1) by (metis set_map)
      then show False using p(2) by auto
    qed
    ultimately have "?b \<in> set (drop k' S)"
      unfolding hits_def by (metis Un_iff append_take_drop_id set_append)
    with pair_in [OF r] have "hit_key (document_idx r, distance r) < hit_key ?b"
      unfolding hits_def S_def by (intro ranked_take_drop)
    then show ?thesis
      using p(1) by (simp add: hit_key_less ds_def length_stored)
  qed
  show "length rs = min k (min (total_count db) (index_len db)) \<and>
        (\<forall>j < length rs. rank (rs ! j) = j + 1) \<and>
        (\<forall>r \<in> set rs. document_idx r < index_len db \<and>
           distance r = fdist q (stored_vectors db ! document_idx r) \<and>
           text_of r = documents db ! document_idx r) \<and>
        sorted_wrt (\<lambda>r s. distance r < distance s \<or>
           (distance r = distance s \<and> document_idx r < document_idx s)) rs \<and>
        sorted (map distance rs) \<and>
        (\<forall>p < index_len db. p \<notin> document_idx ` set rs \<longrightarrow>
           (\<forall>r \<in> set rs. distance r < fdist q (stored_vectors db ! p) \<or>
              (distance r = fdist q (stored_vectors db ! p) \<and> document_idx r < p)))"
    using len rs(2) each lex srt rest by simp
next
  assume "documents db2 \<noteq> [] \<and> index db2 = Some ix2"
  then show "(\<exists>rs2. search fdist2 h2 db2 query2 k2 = Inr rs2) \<longleftrightarrow>
          (\<exists>q2 qs2 hits. generate_embeddings db2 [query2] = Inr (q2 # qs2) \<and>
             index_search fdist2 ix2 q2 (min k2 (total_count db2)) = Inr hits \<and>
             (\<forall>p \<in> set hits.
                fst p < length (documents db2) \<and> fst p < length (metadata db2)))"
    by (intro search_returns_iff) simp_all
next
  assume "index db1 = None \<or>
      (index db1 = Some ix1 \<and> documents db1 \<noteq> [] \<and> vectors ix1 \<noteq> [] \<and>
       length (vectors ix1) \<le> length (documents db1) \<and>
       length (vectors ix1) \<le> length (metadata db1) \<and>
       generate_embeddings db1 [query1] = Inr (q1 # qs1) \<and> length q1 = dimension ix1)"
  then show "\<exists>rs1. search fdist1 h1 db1 query1 k1 = Inr rs1"
    using search_no_index [of db1 fdist1 h1 query1 k1]
      search_run [of db1 ix1 query1 q1 qs1 fdist1 h1 k1]
    by auto
qed

theorem search_nearest_witness:
  "generate_embeddings two_db [''xy''] = Inr [[2]] \<and>
   search l2sqr two_store two_db ''xy'' 1 = Inr first_result \<and>
   length first_result = min 1 (min (total_count two_db) (index_len two_db)) \<and>
   sorted (map distance first_result) \<and>
   1 < index_len two_db \<and> 1 \<notin> document_idx ` set first_result \<and>
   distance (hd first_result) = l2sqr [2] (stored_vectors two_db ! 1) \<and>
   document_idx (hd first_result) < 1 \<and>
   documents two_db \<noteq> [] \<and> index two_db = Some \<lparr>dimension = 1, vectors = [[1], [3]]\<rparr> \<and>
   index_search l2sqr \<lparr>dimension = 1, vectors = [[1], [3]]\<rparr> [2] (min 1 (total_count two_db)) =
     Inr [(0, 1)] \<and>
   list_all (\<lambda>p. fst p < length (documents two_db) \<and> fst p < length (metadata two_db))
     [(0 :: nat, 1 :: real)] \<and>
   vectors \<lparr>dimension = 1, vectors = [[1], [3 :: real]]\<rparr> \<noteq> [] \<and>
   length (vectors \<lparr>dimension = 1, vectors = [[1], [3 :: real]]\<rparr>) \<le> length (documents two_db) \<and>
   length (vectors \<lparr>dimension = 1, vectors = [[1], [3 :: real]]\<rparr>) \<le> length (metadata two_db) \<and>
   length [2 :: real] = dimension \<lparr>dimension = 1, vectors = [[1], [3]]\<rparr>"
  using search_nearest [of two_db "''xy''" "[2]" "[]" l2sqr two_store 1 first_result
      two_db "\<lparr>dimension = 1, vectors = [[1], [3]]\<rparr>" l2sqr two_store "''xy''" 1
      two_db "\<lparr>dimension = 1, vectors = [[1], [3]]\<rparr>" "''xy''" "[2]" "[]" l2sqr two_store 1]
    search_first
  by (simp add: two_db_def generate_embeddings_def length_model_def first_result_def
      total_count_def index_len_def stored_vectors_def l2sqr_def index_search_def hit_key_def)

text \<open>
  C6, as stated, fails for \<open>k = 5\<close>: a database without index, as \<open>load\<close> returns
  it from a directory without \<open>index.faiss\<close>, holds two documents and answers with the
  empty list; on the database that a failed call of \<open>add_documents\<close> left behind, and
  on one whose index holds more vectors than there are documents, \<open>search\<close> fails
  with \<open>NotFound\<close>; it fails as well where the query embedding has another width and
  where the embedder fails.
\<close>

theorem search_clamped_counterexample:
  "load hub [] headless_dir = Inr (two_store, headless_db) \<and>
   total_count headless_db = 2 \<and> search l2sqr two_store headless_db ''xy'' 5 = Inr [] \<and>
   add_documents [] empty_db (Separate [''a'', ''bcd'']) (Some []) =
     (Some LengthMismatch, [], orphan_db) \<and>
   total_count orphan_db = 2 \<and> search l2sqr [] orphan_db ''xy'' 5 = Inl NotFound \<and>
   total_count surplus_db = 1 \<and> search l2sqr two_store surplus_db ''xyz'' 5 = Inl NotFound \<and>
   total_count wide_db = 2 \<and> search l2sqr two_store wide_db ''xy'' 5 = Inl DimensionMismatch \<and>
   total_count mute_db = 2 \<and> search l2sqr two_store mute_db ''xy'' 5 = Inl EmbeddingError"
  using load_headless search_headless [of l2sqr] add_orphan search_orphan search_surplus
    search_wide search_mute
  by (simp add: total_count_def headless_db_def orphan_db_def surplus_db_def wide_db_def
      mute_db_def two_db_def)

text \<open>
  C6, amended. On a database with no document \<open>search\<close> returns the empty list.
  With \<open>k\<close> greater than \<open>total_count\<close>: whenever \<open>search\<close> returns, it returns as
  many results as the lesser of \<open>total_count\<close> and the number of stored vectors. On a
  database with a document and an index, \<open>search\<close> returns exactly when the embedder
  returns an embedding of the query, the index answers the search for it, and every
  position in that answer is a position of the document list and of the metadata list.
  So, on a database whose index holds exactly \<open>total_count\<close> vectors and which has at
  least \<open>total_count\<close> metadata records, for a query whose embedding has the width of
  the index, \<open>search\<close> with \<open>k\<close> greater than \<open>total_count\<close> returns normally,
  with exactly \<open>total_count\<close> results.
\<close>

theorem search_clamped:
  "(total_count db0 = 0 \<longrightarrow> search fdist0 h0 db0 query0 k0 = Inr []) \<and>
   (total_count db1 < k1 \<and> search fdist1 h1 db1 query1 k1 = Inr rs1
    \<longrightarrow> length rs1 = min (total_count db1) (index_len db1)) \<and>
   (documents db2 \<noteq> [] \<and> index db2 = Some ix2
    \<longrightarrow> ((\<exists>rs2. search fdist2 h2 db2 query2 k2 = Inr rs2) \<longleftrightarrow>
          (\<exists>q2 qs2 hits. generate_embeddings db2 [query2] = Inr (q2 # qs2) \<and>
             index_search fdist2 ix2 q2 (min k2 (total_count db2)) = Inr hits \<and>
             (\<forall>p \<in> set hits.
                fst p < length (documents db2) \<and> fst p < length (metadata db2))))) \<and>
   (total_count db < k \<and> index_len db = total_count db \<and>
      total_count db \<le> length (metadata db) \<and>
      generate_embeddings db [query] = Inr (q # qs) \<and>
      (\<forall>ix. index db = Some ix \<longrightarrow> length q = dimension ix)
    \<longrightarrow> (\<exists>rs. search fdist h db query k = Inr rs \<and> length rs = total_count db))"
proof -
  have empty: "search fd hh dd qq kk = Inr []" if "total_count dd = 0" for fd hh dd qq kk
    using that by (simp add: total_count_def search_def split: option.splits)
  have count: "length rr = min (total_count dd) (index_len dd)"
    if "total_count dd < kk" and s: "search fd hh dd qq kk = Inr rr" for fd hh dd qq kk rr
  proof (cases "index dd = None \<or> documents dd = []")
    case True
    with s have "rr = []"
      by (auto simp: search_def split: option.splits)
    with True show ?thesis
      by (auto simp: total_count_def index_len_def)
  next
    case False
    with s obtain v vs where g: "generate_embeddings dd [qq] = Inr (v # vs)"
      by (auto simp: search_def split: sum.splits list.splits)
    from search_Inr [OF s g]
    have "length (map (\<lambda>r. (document_idx r, distance r)) rr) =
        length (take (min kk (length (documents dd)))
             (sort_key hit_key (enumerate 0 (map (fd v) (stored_vectors dd)))))"
      by simp
    with that(1) show ?thesis
      by (simp add: total_count_def length_stored)
  qed
  have run: "\<exists>rs. search fdist h db query k = Inr rs \<and> length rs = total_count db"
    if a: "total_count db < k \<and> index_len db = total_count db \<and>
      total_count db \<le> length (metadata db) \<and>
      generate_embeddings db [query] = Inr (q # qs) \<and>
      (\<forall>ix. index db = Some ix \<longrightarrow> length q = dimension ix)"
  proof (cases "documents db = []")
    case True
    then show ?thesis
      using empty [of db fdist h query k] by (simp add: total_count_def)
  next
    case False
    with a obtain ix where ix: "index db = Some ix"
      by (auto simp: index_len_def total_count_def split: option.splits)
    with a False have "\<exists>rs. search fdist h db query k = Inr rs"
      by (intro search_run [of db ix query q qs]) (auto simp: index_len_def total_count_def)
    then obtain rs where rs: "search fdist h db query k = Inr rs" ..
    with a count [of db k fdist h query rs] show ?thesis
      by simp
  qed
  have "(\<exists>rs2. search fdist2 h2 db2 query2 k2 = Inr rs2) \<longleftrightarrow>
          (\<exists>q2 qs2 hits. generate_embeddings db2 [query2] = Inr (q2 # qs2) \<and>
             index_search fdist2 ix2 q2 (min k2 (total_count db2)) = Inr hits \<and>
             (\<forall>p \<in> set hits.
                fst p < length (documents db2) \<and> fst p < length (metadata db2)))"
    if "documents db2 \<noteq> [] \<and> index db2 = Some ix2"
    using that by (intro search_returns_iff) simp_all
  with empty count run show ?thesis
    by blast
qed

theorem search_clamped_witness:
  "total_count empty_db = 0 \<and> search l2sqr [] empty_db ''xy'' 5 = Inr [] \<and>
   total_count two_db < 5 \<and> search l2sqr two_store two_db ''xy'' 5 = Inr tie_results \<and>
   length tie_results = min (total_count two_db) (index_len two_db) \<and>
   documents two_db \<noteq> [] \<and>
   index_search l2sqr \<lparr>dimension = 1, vectors = [[1], [3]]\<rparr> [2] (min 5 (total_count two_db)) =
     Inr [(0, 1), (1, 1)] \<and>
   list_all (\<lambda>p. fst p < length (documents two_db) \<and> fst p < length (metadata two_db))
     [(0 :: nat, 1 :: real), (1, 1)] \<and>
   index_len two_db = total_count two_db \<and> total_count two_db \<le> length (metadata two_db) \<and>
   generate_embeddings two_db [''xy''] = Inr [[2]] \<and>
   index two_db = Some \<lparr>dimension = 1, vectors = [[1], [3]]\<rparr> \<and>
   length [2 :: real] = dimension \<lparr>dimension = 1, vectors = [[1], [3]]\<rparr> \<and>
   length tie_results = total_count two_db"
  using search_clamped [of empty_db l2sqr "[]" "''xy''" 5
      two_db 5 l2sqr two_store "''xy''" tie_results
      two_db "\<lparr>dimension = 1, vectors = [[1], [3]]\<rparr>" l2sqr two_store "''xy''" 5
      two_db 5 "''xy''" "[2]" "[]" l2sqr two_store]
    search_two
  by (auto simp: two_db_def empty_db_def generate_embeddings_def length_model_def
      total_count_def index_len_def tie_results_def index_search_def l2sqr_def hit_key_def)

subsection \<open>Persistence\<close>

text \<open>
  C4, as stated, fails: from a directory without \<open>index.faiss\<close>, whose document list
  has one entry and whose metadata list has none, \<open>load\<close> returns a database, with no
  index, one document and no metadata record.
\<close>

theorem load_unchecked_counterexample:
  "index_faiss loose_dir = Missing \<and> load hub [] loose_dir = Inr ([], loose_db) \<and>
   index_len loose_db = 0 \<and> length (documents loose_db) = 1 \<and>
   length (metadata loose_db) = 0"
  using load_loose
  by (simp add: loose_dir_def loose_db_def empty_db_def index_len_def)

text \<open>
  C4, amended. \<open>load\<close> fails with \<open>CorruptState\<close> whenever the model name, the
  document list or the metadata list is missing or unreadable, or the index file is
  there and unreadable. It returns a database exactly when the three are readable, a
  model can be built for the stripped name, and the index file is missing or readable:
  a missing index file is no error, and the lengths are not compared.
\<close>

theorem load_corrupt:
  "(model_name_txt dir \<in> {Missing, Unreadable} \<or> documents_pkl dir \<in> {Missing, Unreadable} \<or>
      metadata_pkl dir \<in> {Missing, Unreadable} \<or> index_faiss dir = Unreadable
    \<longrightarrow> load fp h dir = Inl CorruptState) \<and>
   ((\<exists>r. load fp h dir = Inr r) \<longleftrightarrow>
      (\<exists>s docs metas. model_name_txt dir = Holds s \<and> fp (strip s) \<noteq> None \<and>
         documents_pkl dir = Holds docs \<and> metadata_pkl dir = Holds metas \<and>
         index_faiss dir \<noteq> Unreadable))"
  by (auto simp: load_def init_def Let_def split: artifact.splits option.splits sum.splits)

theorem load_corrupt_witness:
  "index_faiss junk_dir = Unreadable \<and> load hub [] junk_dir = Inl CorruptState \<and>
   load hub [] loose_dir = Inr ([], loose_db)"
  using load_corrupt [of junk_dir hub "[]"] load_loose
  by (simp add: junk_dir_def)

text \<open>
  \<open>search\<close> reads the index, the model, the documents, and the contents of the
  dictionaries that the metadata list refers to; two databases that agree on these give
  the same answer. On a database with an index and a document, the answer for \<open>k\<close>
  above 0 is an error or a non-empty list.
\<close>

lemma format_results_cong:
  "documents db = documents db' \<Longrightarrow> length (metadata db) = length (metadata db') \<Longrightarrow>
   (\<And>j. j < length (metadata db) \<Longrightarrow> h ! (metadata db ! j) = h' ! (metadata db' ! j)) \<Longrightarrow>
   format_results h db i hits = format_results h' db' i hits"
  by (induction hits arbitrary: i) (auto split: sum.splits)

lemma search_cong:
  assumes "index db = index db'" "model db = model db'" "documents db = documents db'"
    "length (metadata db) = length (metadata db')"
    "\<And>j. j < length (metadata db) \<Longrightarrow> h ! (metadata db ! j) = h' ! (metadata db' ! j)"
  shows "search fdist h db q k = search fdist h' db' q k"
proof -
  have "format_results h db 0 hits = format_results h' db' 0 hits" for hits
    using assms(3-5) by (rule format_results_cong)
  with assms(1-3) show ?thesis
    by (auto simp: search_def generate_embeddings_def
        split: option.splits sum.splits list.splits)
qed

lemma format_results_Cons: "format_results h db i (p # hits) \<noteq> Inr []"
  by (cases p) (auto split: sum.splits)

lemma search_some:
  assumes "index db = Some ix" and "documents db \<noteq> []"
  shows "search fdist h db q (Suc k) \<noteq> Inr []"
proof (cases "generate_embeddings db [q]")
  case (Inl e)
  with assms show ?thesis by (simp add: search_def)
next
  case (Inr emb)
  show ?thesis
  proof (cases emb)
    case Nil
    with Inr assms show ?thesis by (simp add: search_def)
  next
    case (Cons v vs)
    show ?thesis
    proof (cases "index_search fdist ix v (min (Suc k) (length (documents db)))")
      case (Inl e)
      with Inr Cons assms show ?thesis by (simp add: search_def)
    next
      case hits: (Inr hits)
      then have ne: "vectors ix \<noteq> []"
        by (auto simp: index_search_def split: if_splits)
      from assms(2) have "0 < min (Suc k) (length (documents db))"
        by simp
      then obtain n where n: "min (Suc k) (length (documents db)) = Suc n"
        using gr0_implies_Suc by blast
      from hits have "length hits = min (Suc n) (length (vectors ix))"
        by (auto simp: index_search_def n split: if_splits)
      with ne have "0 < length hits"
        by simp
      then obtain p ps where "hits = p # ps"
        by (cases hits) auto
      with hits Inr Cons assms show ?thesis
        by (simp add: search_def format_results_Cons)
    qed
  qed
qed

text \<open>
  C3, as stated, fails: \<open>save\<close> writes no index file for a database without index
  and leaves an older \<open>index.faiss\<close> in place. A new database saved to a directory
  that holds an unreadable \<open>index.faiss\<close> cannot be loaded. A database without index
  that holds documents, as \<open>load\<close> returns it from a directory without
  \<open>index.faiss\<close>, answers every query with the empty list; saved to a directory that
  holds a readable \<open>index.faiss\<close>, it is loaded with that index and answers with two
  results.
\<close>

theorem save_load_counterexample:
  "hub (strip (model_name empty_db)) = Some (model empty_db) \<and>
   load hub [] (save [] empty_db junk_dir) = Inl CorruptState \<and>
   hub (strip (model_name headless_db)) = Some (model headless_db) \<and>
   load hub [] (save two_store headless_db stale_dir) = Inr (two_store, two_db) \<and>
   search l2sqr two_store headless_db ''xy'' 5 = Inr [] \<and>
   search l2sqr two_store two_db ''xy'' 5 = Inr tie_results \<and>
   tie_results \<noteq> []"
  using load_headless_stale search_headless [of l2sqr] search_two
  by (simp add: save_def load_def junk_dir_def empty_db_def init_def hub_def strip_m
      headless_db_def two_db_def tie_results_def)

text \<open>
  C3, amended. Let the model hub give the embedder of the database for its stripped
  model name. If the database has an index, or the directory holds no index file, or
  the database holds no document and the index file of the directory is readable, then
  \<open>load\<close> of what \<open>save\<close> wrote returns a database with the same \<open>total_count\<close>,
  the same answer of \<open>search\<close> to every query and \<open>k\<close>, the same document texts,
  and metadata dictionaries of the same contents. Otherwise \<open>load\<close> fails, or the
  database it returns answers a query with \<open>k = 1\<close> differently.
\<close>

theorem save_load_roundtrip:
  assumes "fp (strip (model_name db)) = Some (model db)"
  shows "(index db \<noteq> None \<or> index_faiss dir = Missing \<or>
            (documents db = [] \<and> index_faiss dir \<noteq> Unreadable)
          \<longrightarrow> (\<exists>h2 db2. load fp h' (save h db dir) = Inr (h2, db2) \<and>
                total_count db2 = total_count db \<and>
                search fdist h2 db2 q k = search fdist h db q k \<and>
                documents db2 = documents db \<and>
                map (\<lambda>a. h2 ! a) (metadata db2) = map (\<lambda>a. h ! a) (metadata db))) \<and>
         (\<not> (index db \<noteq> None \<or> index_faiss dir = Missing \<or>
               (documents db = [] \<and> index_faiss dir \<noteq> Unreadable))
          \<longrightarrow> load fp h' (save h db dir) = Inl CorruptState \<or>
              (\<exists>h2 db2. load fp h' (save h db dir) = Inr (h2, db2) \<and>
                 search fdist h2 db2 q 1 \<noteq> search fdist h db q 1))"
proof (intro conjI impI)
  assume c: "index db \<noteq> None \<or> index_faiss dir = Missing \<or>
            (documents db = [] \<and> index_faiss dir \<noteq> Unreadable)"
  define metas where "metas = map (\<lambda>a. h ! a) (metadata db)"
  define h2 where "h2 = h' @ metas"
  define ix2 where "ix2 = (case index db of
       None \<Rightarrow> (case index_faiss dir of Holds ix \<Rightarrow> Some ix | _ \<Rightarrow> None)
     | Some ix \<Rightarrow> Some ix)"
  define db2 where "db2 = \<lparr>model_name = strip (model_name db), model = model db,
     index = ix2, documents = documents db,
     metadata = [length h' ..< length h' + length metas]\<rparr>"
  have ld: "load fp h' (save h db dir) = Inr (h2, db2)"
    using assms c
    by (auto simp: load_def save_def init_def Let_def h2_def db2_def metas_def ix2_def
        split: option.splits artifact.splits)
  have nth: "h2 ! (metadata db2 ! j) = h ! (metadata db ! j)" if "j < length (metadata db)" for j
    using that by (simp add: h2_def db2_def metas_def nth_append)
  have len: "length (metadata db2) = length (metadata db)"
    by (simp add: db2_def metas_def)
  have "search fdist h2 db2 q k = search fdist h db q k"
  proof (cases "index db2 = index db")
    case True
    show ?thesis
    proof (rule search_cong)
      show "h2 ! (metadata db2 ! j) = h ! (metadata db ! j)" if "j < length (metadata db2)" for j
        using that nth len by simp
    qed (simp_all add: True len, simp_all add: db2_def)
  next
    case False
    with c have "index db = None" "documents db = []"
      by (auto simp: db2_def ix2_def split: option.splits artifact.splits)
    then show ?thesis
      by (simp add: search_def db2_def split: option.splits)
  qed
  moreover have "map (\<lambda>a. h2 ! a) (metadata db2) = map (\<lambda>a. h ! a) (metadata db)"
    using nth len by (auto simp: list_eq_iff_nth_eq)
  ultimately show "\<exists>h2 db2. load fp h' (save h db dir) = Inr (h2, db2) \<and>
                total_count db2 = total_count db \<and>
                search fdist h2 db2 q k = search fdist h db q k \<and>
                documents db2 = documents db \<and>
                map (\<lambda>a. h2 ! a) (metadata db2) = map (\<lambda>a. h ! a) (metadata db)"
    using ld by (simp add: total_count_def db2_def)
next
  assume n: "\<not> (index db \<noteq> None \<or> index_faiss dir = Missing \<or>
               (documents db = [] \<and> index_faiss dir \<noteq> Unreadable))"
  from n have none: "index db = None" and nm: "index_faiss dir \<noteq> Missing"
    and alt: "documents db \<noteq> [] \<or> index_faiss dir = Unreadable"
    by auto
  show "load fp h' (save h db dir) = Inl CorruptState \<or>
              (\<exists>h2 db2. load fp h' (save h db dir) = Inr (h2, db2) \<and>
                 search fdist h2 db2 q 1 \<noteq> search fdist h db q 1)"
  proof (cases "index_faiss dir")
    case Missing
    with nm show ?thesis by simp
  next
    case Unreadable
    with assms none have "load fp h' (save h db dir) = Inl CorruptState"
      by (simp add: load_def save_def init_def Let_def)
    then show ?thesis ..
  next
    case (Holds ix)
    with alt have ne: "documents db \<noteq> []" by simp
    from assms none Holds obtain h2 db2 where ld: "load fp h' (save h db dir) = Inr (h2, db2)"
      and i2: "index db2 = Some ix" and d2: "documents db2 = documents db"
      by (simp add: load_def save_def init_def Let_def)
    from i2 d2 ne have "search fdist h2 db2 q (Suc 0) \<noteq> Inr []"
      by (intro search_some) simp_all
    moreover have "search fdist h db q 1 = Inr []"
      using none by (simp add: search_def)
    ultimately have "search fdist h2 db2 q 1 \<noteq> search fdist h db q 1"
      by simp
    with ld show ?thesis by blast
  qed
qed

theorem save_load_roundtrip_witness:
  "hub (strip (model_name two_db)) = Some (model two_db) \<and> index two_db \<noteq> None \<and>
   load hub [] (save two_store two_db no_dir) = Inr (two_store, two_db) \<and>
   hub (strip (model_name empty_db)) = Some (model empty_db) \<and>
   documents empty_db = [] \<and> index_faiss stale_dir \<noteq> Unreadable \<and>
   load hub [] (save [] empty_db stale_dir) = Inr ([], stale_db) \<and>
   total_count stale_db = total_count empty_db \<and>
   search l2sqr [] stale_db ''xy'' 5 = search l2sqr [] empty_db ''xy'' 5 \<and>
   hub (strip (model_name headless_db)) = Some (model headless_db) \<and>
   index headless_db = None \<and> index_faiss stale_dir \<noteq> Missing \<and>
   documents headless_db \<noteq> [] \<and>
   load hub [] (save two_store headless_db stale_dir) = Inr (two_store, two_db) \<and>
   search l2sqr two_store two_db ''xy'' 1 \<noteq> search l2sqr two_store headless_db ''xy'' 1"
  using save_load_roundtrip [of hub two_db no_dir "[]" two_store l2sqr "''xy''" 5]
    save_load_roundtrip [of hub empty_db stale_dir "[]" "[]" l2sqr "''xy''" 5]
    save_load_roundtrip [of hub headless_db stale_dir "[]" two_store l2sqr "''xy''" 5]
    load_two load_stale load_headless_stale
  by (simp add: two_db_def empty_db_def headless_db_def hub_def strip_m stale_dir_def
      stale_db_def search_def)

end
